theory Spec2Isabelle
  imports Complex_Main "HOL-Library.Word"
begin

unbundle bit_operations_syntax

section \<open>JavaScript numbers\<close>

text \<open>
  A JavaScript number is an IEEE double. The model keeps the three special values that
  the program can see (\<open>NaN\<close> and the two infinities) and idealises every finite double as
  the real number it denotes: finite arithmetic is exact (no rounding to 53 bits, no
  overflow to infinity) and the sign of zero is dropped. In exact arithmetic the program
  never divides by zero (its two divisions by a computed quantity are guarded by
  \<open>delta !== 0\<close>), so the sign of zero is not observable in the model.
\<close>

datatype jsnum = NaN | PInf | NInf | Fin real

fun jneg :: "jsnum \<Rightarrow> jsnum" where
  "jneg NaN = NaN"
| "jneg PInf = NInf"
| "jneg NInf = PInf"
| "jneg (Fin x) = Fin (- x)"

fun jadd :: "jsnum \<Rightarrow> jsnum \<Rightarrow> jsnum" where
  "jadd (Fin x) (Fin y) = Fin (x + y)"
| "jadd NaN _ = NaN"
| "jadd _ NaN = NaN"
| "jadd PInf NInf = NaN"
| "jadd NInf PInf = NaN"
| "jadd PInf _ = PInf"
| "jadd _ PInf = PInf"
| "jadd NInf _ = NInf"
| "jadd _ NInf = NInf"

definition jsub :: "jsnum \<Rightarrow> jsnum \<Rightarrow> jsnum" where
  "jsub x y = jadd x (jneg y)"

fun jsgn :: "jsnum \<Rightarrow> int" where
  "jsgn NaN = 0"
| "jsgn PInf = 1"
| "jsgn NInf = - 1"
| "jsgn (Fin x) = (if x < 0 then - 1 else if x = 0 then 0 else 1)"

fun jmul :: "jsnum \<Rightarrow> jsnum \<Rightarrow> jsnum" where
  "jmul (Fin x) (Fin y) = Fin (x * y)"
| "jmul NaN _ = NaN"
| "jmul _ NaN = NaN"
| "jmul x y = (let s = jsgn x * jsgn y in if s = 0 then NaN else if 0 < s then PInf else NInf)"

text \<open>Truncation towards zero, as in the remainder operator and in \<open>ToInt32\<close>.\<close>

definition jtrunc :: "real \<Rightarrow> int" where
  "jtrunc z = (if 0 \<le> z then \<lfloor>z\<rfloor> else \<lceil>z\<rceil>)"

fun jdiv :: "jsnum \<Rightarrow> jsnum \<Rightarrow> jsnum" where
  "jdiv NaN _ = NaN"
| "jdiv _ NaN = NaN"
| "jdiv (Fin x) (Fin y) =
     (if y \<noteq> 0 then Fin (x / y)
      else if x = 0 then NaN else if 0 < x then PInf else NInf)"
| "jdiv (Fin x) _ = Fin 0"
| "jdiv PInf (Fin y) = (if y < 0 then NInf else PInf)"
| "jdiv NInf (Fin y) = (if y < 0 then PInf else NInf)"
| "jdiv _ _ = NaN"

text \<open>The operator \<open>%\<close>: the remainder has the sign of the dividend.\<close>

fun jrem :: "jsnum \<Rightarrow> jsnum \<Rightarrow> jsnum" where
  "jrem (Fin x) (Fin y) = (if y = 0 then NaN else Fin (x - y * of_int (jtrunc (x / y))))"
| "jrem (Fin x) PInf = Fin x"
| "jrem (Fin x) NInf = Fin x"
| "jrem _ _ = NaN"

fun jabs :: "jsnum \<Rightarrow> jsnum" where
  "jabs NaN = NaN"
| "jabs PInf = PInf"
| "jabs NInf = PInf"
| "jabs (Fin x) = Fin \<bar>x\<bar>"

text \<open>\<open>Math.round\<close>: the nearest integer, a tie going towards plus infinity.\<close>

fun jround :: "jsnum \<Rightarrow> jsnum" where
  "jround (Fin x) = Fin (of_int \<lfloor>x + 1 / 2\<rfloor>)"
| "jround v = v"

text \<open>The comparison \<open><\<close> is false as soon as one side is \<open>NaN\<close>.\<close>

fun jlt :: "jsnum \<Rightarrow> jsnum \<Rightarrow> bool" where
  "jlt NaN _ = False"
| "jlt _ NaN = False"
| "jlt (Fin x) (Fin y) = (x < y)"
| "jlt NInf NInf = False"
| "jlt NInf _ = True"
| "jlt _ NInf = False"
| "jlt PInf _ = False"
| "jlt _ PInf = True"

text \<open>Strict equality \<open>===\<close> on numbers: \<open>NaN\<close> is not equal to itself.\<close>

definition jeq :: "jsnum \<Rightarrow> jsnum \<Rightarrow> bool" where
  "jeq x y = (x \<noteq> NaN \<and> x = y)"

definition isNaN :: "jsnum \<Rightarrow> bool" where
  "isNaN x = (x = NaN)"

text \<open>\<open>Math.max\<close> and \<open>Math.min\<close> return \<open>NaN\<close> as soon as one argument is \<open>NaN\<close>.\<close>

definition Math_max :: "jsnum \<Rightarrow> jsnum \<Rightarrow> jsnum" where
  "Math_max x y = (if x = NaN \<or> y = NaN then NaN else if jlt x y then y else x)"

definition Math_min :: "jsnum \<Rightarrow> jsnum \<Rightarrow> jsnum" where
  "Math_min x y = (if x = NaN \<or> y = NaN then NaN else if jlt y x then y else x)"

text \<open>\<open>ToInt32\<close>, applied by \<open>>>\<close> and \<open>&\<close> to their operands.\<close>

definition toInt32 :: "jsnum \<Rightarrow> 32 word" where
  "toInt32 v = (case v of Fin x \<Rightarrow> word_of_int (jtrunc x) | _ \<Rightarrow> 0)"

definition ofInt32 :: "32 word \<Rightarrow> jsnum" where
  "ofInt32 w = Fin (of_int (sint w))"

section \<open>Utilities of the source\<close>

definition clamp01 :: "jsnum \<Rightarrow> jsnum" where
  "clamp01 v = Math_min (Fin 1) (Math_max (Fin 0) v)"

section \<open>JavaScript strings\<close>

text \<open>
  Strings are lists of 8-bit characters: the model covers ASCII text, which is all the
  formats of the program use.
\<close>

definition isWhite :: "char \<Rightarrow> bool" where
  "isWhite c = (c \<in> set [CHR 0x20, CHR 0x09, CHR 0x0A, CHR 0x0B, CHR 0x0C, CHR 0x0D])"

definition trimStart :: "string \<Rightarrow> string" where
  "trimStart s = dropWhile isWhite s"

definition trim :: "string \<Rightarrow> string" where
  "trim s = rev (dropWhile isWhite (rev (dropWhile isWhite s)))"

definition lowerChar :: "char \<Rightarrow> char" where
  "lowerChar c = (let n = (of_char c :: nat) in if 65 \<le> n \<and> n \<le> 90 then char_of (n + 32) else c)"

definition toLowerCase :: "string \<Rightarrow> string" where
  "toLowerCase s = map lowerChar s"

definition startsWith :: "string \<Rightarrow> string \<Rightarrow> bool" where
  "startsWith s p = (take (length p) s = p)"

text \<open>\<open>s.replace(c, '')\<close> with a string pattern removes the first occurrence only.\<close>

fun removeFirst :: "char \<Rightarrow> string \<Rightarrow> string" where
  "removeFirst c [] = []"
| "removeFirst c (x # xs) = (if x = c then xs else x # removeFirst c xs)"

fun splitComma :: "string \<Rightarrow> string list" where
  "splitComma [] = [[]]"
| "splitComma (c # cs) =
     (if c = CHR '','' then [] # splitComma cs
      else (case splitComma cs of p # ps \<Rightarrow> (c # p) # ps | [] \<Rightarrow> [[c]]))"

definition padStart :: "nat \<Rightarrow> char \<Rightarrow> string \<Rightarrow> string" where
  "padStart n c s = replicate (n - length s) c @ s"

text \<open>Reading an array or a string at an index: out of range is \<open>undefined\<close>.\<close>

definition idx :: "'a list \<Rightarrow> nat \<Rightarrow> 'a option" where
  "idx xs i = (if i < length xs then Some (xs ! i) else None)"

subsection \<open>Digits\<close>

definition digitVal :: "char \<Rightarrow> nat option" where
  "digitVal c = map_of
     [(CHR ''0'', 0), (CHR ''1'', 1), (CHR ''2'', 2), (CHR ''3'', 3), (CHR ''4'', 4),
      (CHR ''5'', 5), (CHR ''6'', 6), (CHR ''7'', 7), (CHR ''8'', 8), (CHR ''9'', 9),
      (CHR ''a'', 10), (CHR ''b'', 11), (CHR ''c'', 12), (CHR ''d'', 13), (CHR ''e'', 14),
      (CHR ''f'', 15),
      (CHR ''A'', 10), (CHR ''B'', 11), (CHR ''C'', 12), (CHR ''D'', 13), (CHR ''E'', 14),
      (CHR ''F'', 15)] c"

definition isRadixDigit :: "nat \<Rightarrow> char \<Rightarrow> bool" where
  "isRadixDigit base c = (case digitVal c of Some d \<Rightarrow> d < base | None \<Rightarrow> False)"

fun digitsVal :: "nat \<Rightarrow> string \<Rightarrow> nat \<Rightarrow> nat" where
  "digitsVal base [] acc = acc"
| "digitsVal base (c # cs) acc =
     (case digitVal c of Some d \<Rightarrow> digitsVal base cs (acc * base + d) | None \<Rightarrow> acc)"

definition digitChar :: "nat \<Rightarrow> char" where
  "digitChar d = ''0123456789abcdef'' ! d"

fun hexDigits :: "nat \<Rightarrow> string" where
  "hexDigits n = (if n < 16 then [digitChar n] else hexDigits (n div 16) @ [digitChar (n mod 16)])"

fun decDigits :: "nat \<Rightarrow> string" where
  "decDigits n = (if n < 10 then [digitChar n] else decDigits (n div 10) @ [digitChar (n mod 10)])"

declare hexDigits.simps [simp del]
declare decDigits.simps [simp del]

subsection \<open>Numbers to strings\<close>

text \<open>
  \<open>Number.prototype.toString(16)\<close> and the decimal conversion of a template literal.
  Both are only ever applied to a result of \<open>Math.round\<close>, so the finite case prints
  an integer.
\<close>

definition toString16 :: "jsnum \<Rightarrow> string" where
  "toString16 v = (case v of
       NaN \<Rightarrow> ''NaN'' | PInf \<Rightarrow> ''Infinity'' | NInf \<Rightarrow> ''-Infinity''
     | Fin x \<Rightarrow> (if x < 0 then ''-'' else []) @ hexDigits (nat \<lfloor>\<bar>x\<bar>\<rfloor>))"

definition toString10 :: "jsnum \<Rightarrow> string" where
  "toString10 v = (case v of
       NaN \<Rightarrow> ''NaN'' | PInf \<Rightarrow> ''Infinity'' | NInf \<Rightarrow> ''-Infinity''
     | Fin x \<Rightarrow> (if x < 0 then ''-'' else []) @ decDigits (nat \<lfloor>\<bar>x\<bar>\<rfloor>))"

text \<open>
  \<open>toFixed(3)\<close>: the integer \<open>n\<close> nearest to \<open>1000 * x\<close> (the larger one on a tie),
  printed with three decimals. The program calls it on an alpha below 1 only.
\<close>

definition toFixed3 :: "jsnum \<Rightarrow> string" where
  "toFixed3 v = (case v of
       NaN \<Rightarrow> ''NaN'' | PInf \<Rightarrow> ''Infinity'' | NInf \<Rightarrow> ''-Infinity''
     | Fin x \<Rightarrow>
         (let n = nat \<lfloor>\<bar>x\<bar> * 1000 + 1 / 2\<rfloor>
          in (if x < 0 then ''-'' else []) @ decDigits (n div 1000) @ ''.'' @
             padStart 3 (CHR ''0'') (decDigits (n mod 1000))))"

subsection \<open>Strings to numbers\<close>

text \<open>
  \<open>parseInt(s, 16)\<close>: leading white space, an optional sign, an optional \<open>0x\<close>, then
  the longest run of hexadecimal digits; \<open>NaN\<close> when that run is empty.
\<close>

definition parseInt16 :: "string \<Rightarrow> jsnum" where
  "parseInt16 s =
     (let t = trimStart s;
          neg = startsWith t ''-'';
          u = (if startsWith t ''-'' \<or> startsWith t ''+'' then drop 1 t else t);
          v = (if startsWith u ''0x'' \<or> startsWith u ''0X'' then drop 2 u else u);
          ds = takeWhile (isRadixDigit 16) v
      in if ds = [] then NaN
         else Fin (if neg then - real (digitsVal 16 ds 0) else real (digitsVal 16 ds 0)))"

text \<open>
  The longest prefix that is a \<open>StrUnsignedDecimalLiteral\<close>, with its value and the
  rest of the string: \<open>Infinity\<close>, or digits with an optional fraction and an optional
  exponent (an exponent counts only when a digit follows it).
\<close>

definition expPart :: "string \<Rightarrow> int \<times> string" where
  "expPart s =
     (if startsWith s ''e'' \<or> startsWith s ''E'' then
        (let t = drop 1 s;
             neg = startsWith t ''-'';
             u = (if startsWith t ''-'' \<or> startsWith t ''+'' then drop 1 t else t);
             ds = takeWhile (isRadixDigit 10) u
         in if ds = [] then (0, s)
            else ((if neg then - int (digitsVal 10 ds 0) else int (digitsVal 10 ds 0)),
                  dropWhile (isRadixDigit 10) u))
      else (0, s))"

definition scale10 :: "real \<Rightarrow> int \<Rightarrow> real" where
  "scale10 m e = (if 0 \<le> e then m * 10 ^ nat e else m / 10 ^ nat (- e))"

definition unsignedDecimal :: "string \<Rightarrow> (jsnum \<times> string) option" where
  "unsignedDecimal s =
     (if startsWith s ''Infinity'' then Some (PInf, drop 8 s)
      else
        (let ip = takeWhile (isRadixDigit 10) s;
             r1 = dropWhile (isRadixDigit 10) s;
             fp = (if startsWith r1 ''.'' then takeWhile (isRadixDigit 10) (drop 1 r1) else []);
             r2 = (if startsWith r1 ''.'' then dropWhile (isRadixDigit 10) (drop 1 r1) else r1)
         in if ip = [] \<and> fp = [] then None
            else
              (let m = real (digitsVal 10 ip 0) + real (digitsVal 10 fp 0) / 10 ^ length fp;
                   (e, r3) = expPart r2
               in Some (Fin (scale10 m e), r3))))"

definition strDecimal :: "string \<Rightarrow> (jsnum \<times> string) option" where
  "strDecimal s =
     (if startsWith s ''-'' then
        (case unsignedDecimal (drop 1 s) of None \<Rightarrow> None | Some (v, r) \<Rightarrow> Some (jneg v, r))
      else if startsWith s ''+'' then unsignedDecimal (drop 1 s)
      else unsignedDecimal s)"

definition parseFloat :: "string \<Rightarrow> jsnum" where
  "parseFloat s = (case strDecimal (trimStart s) of None \<Rightarrow> NaN | Some (v, r) \<Rightarrow> v)"

text \<open>
  \<open>ToNumber\<close> on a string: white space is trimmed on both sides, the empty string is 0,
  and otherwise the whole string has to be a numeric literal.
\<close>

definition radixLiteral :: "nat \<Rightarrow> string \<Rightarrow> jsnum" where
  "radixLiteral base ds =
     (if ds \<noteq> [] \<and> list_all (isRadixDigit base) ds then Fin (real (digitsVal base ds 0)) else NaN)"

definition stringToNumber :: "string \<Rightarrow> jsnum" where
  "stringToNumber s =
     (let t = trim s
      in if t = [] then Fin 0
         else if startsWith t ''0x'' \<or> startsWith t ''0X'' then radixLiteral 16 (drop 2 t)
         else if startsWith t ''0o'' \<or> startsWith t ''0O'' then radixLiteral 8 (drop 2 t)
         else if startsWith t ''0b'' \<or> startsWith t ''0B'' then radixLiteral 2 (drop 2 t)
         else (case strDecimal t of Some (v, []) \<Rightarrow> v | _ \<Rightarrow> NaN))"

section \<open>Values the constructor can receive\<close>

text \<open>
  Primitive values, and the two kinds of object the dispatcher looks at: an array of
  primitives and a plain record from property names to primitives. Symbols, big
  integers, functions and nested objects are outside the model.
\<close>

datatype jsprim = Undefined | Null | Bool bool | Num jsnum | Str string

datatype jsvalue = Prim jsprim | Arr "jsprim list" | Obj "string \<Rightarrow> jsprim option"

text \<open>\<open>ToNumber\<close>, which the arithmetic operators apply to their operands.\<close>

fun toNumber :: "jsprim \<Rightarrow> jsnum" where
  "toNumber Undefined = NaN"
| "toNumber Null = Fin 0"
| "toNumber (Bool b) = (if b then Fin 1 else Fin 0)"
| "toNumber (Num v) = v"
| "toNumber (Str s) = stringToNumber s"

fun isNumber :: "jsprim \<Rightarrow> bool" where
  "isNumber (Num v) = True"
| "isNumber _ = False"

text \<open>Reading a property: \<open>undefined\<close> when the record does not have it.\<close>

definition field :: "(string \<Rightarrow> jsprim option) \<Rightarrow> string \<Rightarrow> jsprim" where
  "field m k = (case m k of None \<Rightarrow> Undefined | Some v \<Rightarrow> v)"

text \<open>An array element that may be missing, used as a number.\<close>

fun undefNum :: "jsnum option \<Rightarrow> jsnum" where
  "undefNum None = NaN"
| "undefNum (Some v) = v"

section \<open>The canonical colour and the errors\<close>

text \<open>
  The instance has the four properties \<open>this.r\<close>, \<open>this.g\<close>, \<open>this.b\<close>, \<open>this.a\<close> and
  nothing else. The five \<open>Error\<close> messages of the source are the five constructors:
  'Unsupported color format', 'Invalid hex format', 'Invalid CSS RGB format',
  'Invalid CSS HSL format', 'Unknown named color'.
\<close>

record color =
  this_r :: jsnum
  this_g :: jsnum
  this_b :: jsnum
  this_a :: jsnum

datatype error = UnsupportedFormat | InvalidHex | InvalidCSSRGB | InvalidCSSHSL | UnknownNamedColor

text \<open>
  \<open>normalizeAlpha\<close> declares one parameter: the second argument that the dispatcher
  passes (255 or 1) is discarded by the call.
\<close>

definition normalizeAlpha :: "jsprim \<Rightarrow> jsnum" where
  "normalizeAlpha alpha =
     (let n = (case alpha of Str s \<Rightarrow> parseFloat s | _ \<Rightarrow> toNumber alpha)
      in if isNaN n then Fin 1 else clamp01 n)"

section \<open>Colour-space conversions\<close>

definition hslToRgb :: "jsprim \<Rightarrow> jsprim \<Rightarrow> jsprim \<Rightarrow> jsnum \<times> jsnum \<times> jsnum" where
  "hslToRgb h0 s0 l0 =
     (let h = jrem (jadd (jrem (toNumber h0) (Fin 360)) (Fin 360)) (Fin 360);
          s = clamp01 (jdiv (toNumber s0) (Fin 100));
          l = clamp01 (jdiv (toNumber l0) (Fin 100));
          c = jmul (jsub (Fin 1) (jabs (jsub (jmul (Fin 2) l) (Fin 1)))) s;
          x = jmul c (jsub (Fin 1) (jabs (jsub (jrem (jdiv h (Fin 60)) (Fin 2)) (Fin 1))));
          m = jsub l (jdiv c (Fin 2));
          (r, g, b) =
            (if jlt h (Fin 60) then (c, x, Fin 0)
             else if jlt h (Fin 120) then (x, c, Fin 0)
             else if jlt h (Fin 180) then (Fin 0, c, x)
             else if jlt h (Fin 240) then (Fin 0, x, c)
             else if jlt h (Fin 300) then (x, Fin 0, c)
             else (c, Fin 0, x))
      in (jround (jmul (jadd r m) (Fin 255)),
          jround (jmul (jadd g m) (Fin 255)),
          jround (jmul (jadd b m) (Fin 255))))"

definition rgbToHsl :: "jsnum \<Rightarrow> jsnum \<Rightarrow> jsnum \<Rightarrow> jsnum \<times> jsnum \<times> jsnum" where
  "rgbToHsl r0 g0 b0 =
     (let r = clamp01 (jdiv r0 (Fin 255));
          g = clamp01 (jdiv g0 (Fin 255));
          b = clamp01 (jdiv b0 (Fin 255));
          mx = Math_max (Math_max r g) b;
          mn = Math_min (Math_min r g) b;
          delta = jsub mx mn;
          h = (if \<not> jeq delta (Fin 0) then
                 (let h1 = (if jeq mx r then jrem (jdiv (jsub g b) delta) (Fin 6)
                            else if jeq mx g then jadd (jdiv (jsub b r) delta) (Fin 2)
                            else jadd (jdiv (jsub r g) delta) (Fin 4));
                      h2 = jmul h1 (Fin 60)
                  in if jlt h2 (Fin 0) then jadd h2 (Fin 360) else h2)
               else Fin 0);
          l = jdiv (jadd mx mn) (Fin 2);
          s = (if jeq delta (Fin 0) then Fin 0
               else jdiv delta (jsub (Fin 1) (jabs (jsub (jmul (Fin 2) l) (Fin 1)))))
      in (jround h, jround (jmul s (Fin 100)), jround (jmul l (Fin 100))))"

section \<open>Decoders\<close>

definition setRGBAf :: "jsnum \<Rightarrow> jsnum \<Rightarrow> jsnum \<Rightarrow> jsnum \<Rightarrow> color" where
  "setRGBAf r g b a = \<lparr>this_r = clamp01 r, this_g = clamp01 g, this_b = clamp01 b, this_a = clamp01 a\<rparr>"

definition setInteger :: "jsnum \<Rightarrow> color" where
  "setInteger v =
     (let r = ofInt32 (signed_drop_bit 16 (toInt32 v) AND 0xff);
          g = ofInt32 (signed_drop_bit 8 (toInt32 v) AND 0xff);
          b = ofInt32 (toInt32 v AND 0xff)
      in setRGBAf (jdiv r (Fin 255)) (jdiv g (Fin 255)) (jdiv b (Fin 255)) (Fin 1))"

definition setFloatVector :: "jsnum list \<Rightarrow> color" where
  "setFloatVector arr =
     setRGBAf (undefNum (idx arr 0)) (undefNum (idx arr 1)) (undefNum (idx arr 2))
       (case idx arr 3 of None \<Rightarrow> Fin 1 | Some a \<Rightarrow> a)"

text \<open>The division coerces \<open>r\<close>, \<open>g\<close>, \<open>b\<close>; the alpha is a number at every call.\<close>

definition setRGBA :: "jsprim \<Rightarrow> jsprim \<Rightarrow> jsprim \<Rightarrow> jsnum \<Rightarrow> color" where
  "setRGBA r g b a =
     setRGBAf (jdiv (toNumber r) (Fin 255)) (jdiv (toNumber g) (Fin 255))
       (jdiv (toNumber b) (Fin 255)) (jdiv a (Fin 255))"

definition setHSL :: "jsprim \<Rightarrow> jsprim \<Rightarrow> jsprim \<Rightarrow> jsnum \<Rightarrow> color" where
  "setHSL h s l a = (let (r, g, b) = hslToRgb h s l in setRGBAf r g b a)"

definition setHex :: "string \<Rightarrow> error + color" where
  "setHex hex =
     (let clean = removeFirst (CHR ''#'') hex
      in if length clean = 3 then
           Inr (setRGBA (Num (parseInt16 [clean ! 0, clean ! 0]))
                        (Num (parseInt16 [clean ! 1, clean ! 1]))
                        (Num (parseInt16 [clean ! 2, clean ! 2])) (Fin 255))
         else if length clean = 6 then
           Inr (setRGBA (Num (parseInt16 (take 2 clean)))
                        (Num (parseInt16 (take 2 (drop 2 clean))))
                        (Num (parseInt16 (take 2 (drop 4 clean)))) (Fin 255))
         else Inl InvalidHex)"

text \<open>
  The regular expressions \<open>/rgba?\(([^)]+)\)/\<close> and \<open>/hsla?\(([^)]+)\)/\<close>: the name, an
  optional \<open>a\<close>, an opening parenthesis, one or more characters other than the closing
  parenthesis, and the closing parenthesis. \<open>regexMatch\<close> returns the captured group of
  the leftmost match.
\<close>

definition captureArgs :: "string \<Rightarrow> string option" where
  "captureArgs u =
     (if startsWith u ''('' then
        (let v = drop 1 u;
             grp = takeWhile (\<lambda>c. c \<noteq> CHR '')'') v
         in if grp \<noteq> [] \<and> dropWhile (\<lambda>c. c \<noteq> CHR '')'') v \<noteq> [] then Some grp else None)
      else None)"

definition matchAt :: "string \<Rightarrow> string \<Rightarrow> string option" where
  "matchAt nm s =
     (if startsWith s nm then
        (let t = drop (length nm) s
         in if startsWith t ''a'' then
              (case captureArgs (drop 1 t) of Some grp \<Rightarrow> Some grp | None \<Rightarrow> captureArgs t)
            else captureArgs t)
      else None)"

fun regexMatch :: "string \<Rightarrow> string \<Rightarrow> string option" where
  "regexMatch nm [] = None"
| "regexMatch nm (c # cs) =
     (case matchAt nm (c # cs) of Some grp \<Rightarrow> Some grp | None \<Rightarrow> regexMatch nm cs)"

definition setCSSRGB :: "string \<Rightarrow> error + color" where
  "setCSSRGB str =
     (case regexMatch ''rgb'' str of
        None \<Rightarrow> Inl InvalidCSSRGB
      | Some grp \<Rightarrow>
          (let parts = map (\<lambda>v. parseFloat (trim v)) (splitComma grp);
               r = undefNum (idx parts 0);
               g = undefNum (idx parts 1);
               b = undefNum (idx parts 2);
               a = (case idx parts 3 of None \<Rightarrow> Fin 1 | Some v \<Rightarrow> v)
           in Inr (setRGBAf (jdiv r (Fin 255)) (jdiv g (Fin 255)) (jdiv b (Fin 255)) a)))"

text \<open>\<open>parseFloat(undefined)\<close> reads the string \<open>undefined\<close>, which is not a number.\<close>

fun parseFloatU :: "string option \<Rightarrow> jsnum" where
  "parseFloatU None = NaN"
| "parseFloatU (Some v) = parseFloat v"

definition setCSSHSL :: "string \<Rightarrow> error + color" where
  "setCSSHSL str =
     (case regexMatch ''hsl'' str of
        None \<Rightarrow> Inl InvalidCSSHSL
      | Some grp \<Rightarrow>
          (let parts = map trim (splitComma grp);
               h = parseFloatU (idx parts 0);
               s = jdiv (parseFloatU (idx parts 1)) (Fin 100);
               l = jdiv (parseFloatU (idx parts 2)) (Fin 100);
               a = (case idx parts 3 of None \<Rightarrow> Fin 1 | Some v \<Rightarrow> parseFloat v)
           in Inr (setHSL (Num h) (Num s) (Num l) a)))"

text \<open>
  The named colours are resolved by the browser: \<open>canvas name\<close> is the value read back
  from \<open>ctx.fillStyle\<close> after \<open>name\<close> has been assigned to it. It is a parameter of the
  model.
\<close>

definition setNamed :: "(string \<Rightarrow> string) \<Rightarrow> string \<Rightarrow> error + color" where
  "setNamed canvas name =
     (let computed = canvas name
      in if computed = [] \<or> (computed = ''#000000'' \<and> name \<noteq> ''black'') then Inl UnknownNamedColor
         else setHex computed)"

section \<open>The dispatcher and the constructor\<close>

fun setFrom :: "(string \<Rightarrow> string) \<Rightarrow> jsvalue \<Rightarrow> error + color" where
  "setFrom canvas (Prim (Str input)) =
     (let trimmed = toLowerCase (trim input)
      in if startsWith trimmed ''#'' then setHex trimmed
         else if startsWith trimmed ''rgb'' then setCSSRGB trimmed
         else if startsWith trimmed ''hsl'' then setCSSHSL trimmed
         else setNamed canvas trimmed)"
| "setFrom canvas (Prim (Num v)) = Inr (setInteger v)"
| "setFrom canvas (Prim p) = Inl UnsupportedFormat"
| "setFrom canvas (Arr xs) =
     (if 3 \<le> length xs \<and> list_all isNumber xs then Inr (setFloatVector (map toNumber xs))
      else Inl UnsupportedFormat)"
| "setFrom canvas (Obj input) =
     (if input ''r'' \<noteq> None \<and> input ''g'' \<noteq> None \<and> input ''b'' \<noteq> None then
        (let alpha = normalizeAlpha (field input ''a'')
         in Inr (setRGBA (field input ''r'') (field input ''g'') (field input ''b'') alpha))
      else if input ''h'' \<noteq> None \<and> input ''s'' \<noteq> None \<and> input ''l'' \<noteq> None then
        (let alpha = normalizeAlpha (field input ''a'')
         in Inr (setHSL (field input ''h'') (field input ''s'') (field input ''l'') alpha))
      else Inl UnsupportedFormat)"

definition defaultInput :: jsvalue where
  "defaultInput =
     Obj [''r'' \<mapsto> Num (Fin 0), ''g'' \<mapsto> Num (Fin 0), ''b'' \<mapsto> Num (Fin 0), ''a'' \<mapsto> Num (Fin 1)]"

text \<open>\<open>input ?? {r: 0, g: 0, b: 0, a: 1}\<close>: the default stands in for null and undefined.\<close>

fun new_ColorValue :: "(string \<Rightarrow> string) \<Rightarrow> jsvalue \<Rightarrow> error + color" where
  "new_ColorValue canvas (Prim Undefined) = setFrom canvas defaultInput"
| "new_ColorValue canvas (Prim Null) = setFrom canvas defaultInput"
| "new_ColorValue canvas input = setFrom canvas input"

section \<open>Encoders\<close>

text \<open>
  The getters read the four channels. \<open>byteOf\<close> is \<open>Math.round(ch * 255)\<close>, which all
  of them but \<open>FloatVector\<close> and \<open>HSL\<close> apply. \<open>CSSHSL\<close> and \<open>HSL\<close> pass the stored
  channels to \<open>rgbToHsl\<close> as they are.
\<close>

definition byteOf :: "jsnum \<Rightarrow> jsnum" where
  "byteOf ch = jround (jmul ch (Fin 255))"

definition Integer :: "color \<Rightarrow> jsnum" where
  "Integer c =
     ofInt32 (push_bit 16 (toInt32 (byteOf (this_r c))) OR push_bit 8 (toInt32 (byteOf (this_g c)))
              OR toInt32 (byteOf (this_b c)))"

definition Hex :: "color \<Rightarrow> string" where
  "Hex c =
     (let r = padStart 2 (CHR ''0'') (toString16 (byteOf (this_r c)));
          g = padStart 2 (CHR ''0'') (toString16 (byteOf (this_g c)));
          b = padStart 2 (CHR ''0'') (toString16 (byteOf (this_b c)))
      in ''#'' @ r @ g @ b)"

definition CSSRGB :: "color \<Rightarrow> string" where
  "CSSRGB c =
     (let r = toString10 (byteOf (this_r c));
          g = toString10 (byteOf (this_g c));
          b = toString10 (byteOf (this_b c))
      in if jlt (this_a c) (Fin 1)
         then ''rgba('' @ r @ '', '' @ g @ '', '' @ b @ '', '' @ toFixed3 (this_a c) @ '')''
         else ''rgb('' @ r @ '', '' @ g @ '', '' @ b @ '')'')"

definition CSSHSL :: "color \<Rightarrow> string" where
  "CSSHSL c =
     (let (h, s, l) = rgbToHsl (this_r c) (this_g c) (this_b c);
          hStr = toString10 (jround h);
          sStr = toString10 (jround (jmul s (Fin 100)));
          lStr = toString10 (jround (jmul l (Fin 100)))
      in if jlt (this_a c) (Fin 1)
         then ''hsla('' @ hStr @ '', '' @ sStr @ ''%, '' @ lStr @ ''%, '' @ toFixed3 (this_a c) @ '')''
         else ''hsl('' @ hStr @ '', '' @ sStr @ ''%, '' @ lStr @ ''%)'')"

definition FloatVector :: "color \<Rightarrow> jsnum list" where
  "FloatVector c = [this_r c, this_g c, this_b c, this_a c]"

definition RGBA :: "color \<Rightarrow> jsnum \<times> jsnum \<times> jsnum \<times> jsnum" where
  "RGBA c = (byteOf (this_r c), byteOf (this_g c), byteOf (this_b c), byteOf (this_a c))"

definition HSL :: "color \<Rightarrow> jsnum \<times> jsnum \<times> jsnum \<times> jsnum" where
  "HSL c = (let (h, s, l) = rgbToHsl (this_r c) (this_g c) (this_b c) in (h, s, l, this_a c))"

section \<open>Notions used in the statements\<close>

text \<open>A channel lies in the closed interval from 0 to 1; the invariant asks it of all four.\<close>

definition inUnit :: "jsnum \<Rightarrow> bool" where
  "inUnit v = (case v of Fin x \<Rightarrow> 0 \<le> x \<and> x \<le> 1 | _ \<Rightarrow> False)"

definition invariant :: "color \<Rightarrow> bool" where
  "invariant c = (inUnit (this_r c) \<and> inUnit (this_g c) \<and> inUnit (this_b c) \<and> inUnit (this_a c))"

text \<open>What the clamping does guarantee: a channel is in the unit interval or it is \<open>NaN\<close>.\<close>

definition unitOrNaN :: "jsnum \<Rightarrow> bool" where
  "unitOrNaN v = (v = NaN \<or> inUnit v)"

definition channelsOk :: "color \<Rightarrow> bool" where
  "channelsOk c = (unitOrNaN (this_r c) \<and> unitOrNaN (this_g c) \<and> unitOrNaN (this_b c) \<and> unitOrNaN (this_a c))"

text \<open>The byte that two hexadecimal digits denote.\<close>

definition hexPair :: "char \<Rightarrow> char \<Rightarrow> nat" where
  "hexPair c d =
     (case (digitVal c, digitVal d) of (Some u, Some v) \<Rightarrow> 16 * u + v | _ \<Rightarrow> 0)"



section \<open>Auxiliary functions for the analysis of the conversions\<close>









section \<open>Evaluation lemmas\<close>

lemmas num_defs = jsub_def jeq_def isNaN_def Math_max_def Math_min_def clamp01_def jtrunc_def

lemmas str_defs = isWhite_def trimStart_def trim_def lowerChar_def toLowerCase_def startsWith_def
  padStart_def idx_def digitVal_def isRadixDigit_def digitChar_def

lemmas parse_defs = parseInt16_def expPart_def scale10_def unsignedDecimal_def strDecimal_def
  parseFloat_def radixLiteral_def stringToNumber_def

lemmas dec_defs = field_def normalizeAlpha_def setRGBAf_def setRGBA_def setHSL_def setHex_def
  captureArgs_def matchAt_def setCSSRGB_def setCSSHSL_def setNamed_def defaultInput_def

section \<open>The default colour and the alpha of a structured record\<close>

text \<open>
  C2. Constructing with no input (undefined or null) goes through the structured RGBA
  decoder with the record \<open>{r: 0, g: 0, b: 0, a: 1}\<close>. The alpha 1 is first clamped by
  \<open>normalizeAlpha\<close> and then divided by 255 in \<open>setRGBA\<close>: the stored alpha is 1/255,
  not the 1 of opaque black.
\<close>

theorem default_alpha_is_one_255th:
  "new_ColorValue canvas (Prim Undefined) =
     Inr \<lparr>this_r = Fin 0, this_g = Fin 0, this_b = Fin 0, this_a = Fin (1 / 255)\<rparr>
   \<and> new_ColorValue canvas (Prim Null) =
     Inr \<lparr>this_r = Fin 0, this_g = Fin 0, this_b = Fin 0, this_a = Fin (1 / 255)\<rparr>"
  by (simp add: num_defs dec_defs)

text \<open>
  C3. For a structured record with the keys r, g, b the alpha is clamped to the unit
  interval before the division by 255. The record \<open>{r: 255, g: 0, b: 0, a: 128}\<close> gets
  the alpha 1/255 (not 128/255), and the record \<open>{r: 255, g: 0, b: 0}\<close> without an alpha
  gets 1/255 as well (not 1).
\<close>

theorem structured_rgba_alpha_is_one_255th:
  "new_ColorValue canvas
     (Obj [''r'' \<mapsto> Num (Fin 255), ''g'' \<mapsto> Num (Fin 0), ''b'' \<mapsto> Num (Fin 0), ''a'' \<mapsto> Num (Fin 128)]) =
     Inr \<lparr>this_r = Fin 1, this_g = Fin 0, this_b = Fin 0, this_a = Fin (1 / 255)\<rparr>
   \<and> new_ColorValue canvas
     (Obj [''r'' \<mapsto> Num (Fin 255), ''g'' \<mapsto> Num (Fin 0), ''b'' \<mapsto> Num (Fin 0)]) =
     Inr \<lparr>this_r = Fin 1, this_g = Fin 0, this_b = Fin 0, this_a = Fin (1 / 255)\<rparr>"
  by (simp add: num_defs dec_defs)

section \<open>The invariant of the canonical channels\<close>

text \<open>
  C1. A hexadecimal string of three characters that are not digits, and an \<open>rgb(...)\<close>
  string whose components are not numbers, both construct an instance, and its red,
  green and blue channels are \<open>NaN\<close>: \<open>clamp01\<close> lets \<open>NaN\<close> through, so the channels are
  not in the unit interval.
\<close>

theorem unparsable_components_store_NaN:
  "new_ColorValue canvas (Prim (Str ''#ggg'')) =
     Inr \<lparr>this_r = NaN, this_g = NaN, this_b = NaN, this_a = Fin 1\<rparr>
   \<and> new_ColorValue canvas (Prim (Str ''rgb(x, y, z)'')) =
     Inr \<lparr>this_r = NaN, this_g = NaN, this_b = NaN, this_a = Fin 1\<rparr>
   \<and> \<not> invariant \<lparr>this_r = NaN, this_g = NaN, this_b = NaN, this_a = Fin 1\<rparr>"
  by (simp add: num_defs str_defs parse_defs dec_defs Let_def invariant_def inUnit_def)

section \<open>Scenarios\<close>

text \<open>
  C4. The string \<open>rgba(255, 0, 0, 0.5)\<close> constructs the channels (1, 0, 0, 1/2). Its
  \<open>Hex\<close> is \<open>#ff0000\<close>. Its \<open>CSSHSL\<close> is \<open>hsla(0, 10000%, 0%, 0.500)\<close>: the encoder hands
  the unit-range channels to \<open>rgbToHsl\<close>, which divides them by 255 once more, and it
  multiplies the percentages that come back by 100 once more.
\<close>

theorem rgba_red_half_encodings:
  "new_ColorValue canvas (Prim (Str ''rgba(255, 0, 0, 0.5)'')) =
     Inr \<lparr>this_r = Fin 1, this_g = Fin 0, this_b = Fin 0, this_a = Fin (1 / 2)\<rparr>
   \<and> Hex \<lparr>this_r = Fin 1, this_g = Fin 0, this_b = Fin 0, this_a = Fin (1 / 2)\<rparr> = ''#ff0000''
   \<and> CSSHSL \<lparr>this_r = Fin 1, this_g = Fin 0, this_b = Fin 0, this_a = Fin (1 / 2)\<rparr> =
       ''hsla(0, 10000%, 0%, 0.500)''"
proof -
  have "new_ColorValue canvas (Prim (Str ''rgba(255, 0, 0, 0.5)'')) =
     Inr \<lparr>this_r = Fin 1, this_g = Fin 0, this_b = Fin 0, this_a = Fin (1 / 2)\<rparr>"
    by (simp add: num_defs str_defs parse_defs dec_defs Let_def)
  moreover have "Hex \<lparr>this_r = Fin 1, this_g = Fin 0, this_b = Fin 0, this_a = Fin (1 / 2)\<rparr> = ''#ff0000''"
    by (simp add: Hex_def byteOf_def toString16_def hexDigits.simps str_defs)
  moreover have "CSSHSL \<lparr>this_r = Fin 1, this_g = Fin 0, this_b = Fin 0, this_a = Fin (1 / 2)\<rparr> =
       ''hsla(0, 10000%, 0%, 0.500)''"
    by (simp add: CSSHSL_def rgbToHsl_def num_defs toString10_def toFixed3_def decDigits.simps
        str_defs Let_def)
  ultimately show ?thesis by blast
qed

text \<open>
  C6. The structured record \<open>{h: 0, s: 100, l: 50}\<close> constructs the channels
  (1, 0, 0, 1), whose \<open>Hex\<close> is \<open>#ff0000\<close>.
\<close>

theorem hsl_record_red_hex:
  "new_ColorValue canvas (Obj [''h'' \<mapsto> Num (Fin 0), ''s'' \<mapsto> Num (Fin 100), ''l'' \<mapsto> Num (Fin 50)]) =
     Inr \<lparr>this_r = Fin 1, this_g = Fin 0, this_b = Fin 0, this_a = Fin 1\<rparr>
   \<and> Hex \<lparr>this_r = Fin 1, this_g = Fin 0, this_b = Fin 0, this_a = Fin 1\<rparr> = ''#ff0000''"
proof -
  have "new_ColorValue canvas (Obj [''h'' \<mapsto> Num (Fin 0), ''s'' \<mapsto> Num (Fin 100), ''l'' \<mapsto> Num (Fin 50)]) =
     Inr \<lparr>this_r = Fin 1, this_g = Fin 0, this_b = Fin 0, this_a = Fin 1\<rparr>"
    by (simp add: num_defs dec_defs hslToRgb_def Let_def)
  moreover have "Hex \<lparr>this_r = Fin 1, this_g = Fin 0, this_b = Fin 0, this_a = Fin 1\<rparr> = ''#ff0000''"
    by (simp add: Hex_def byteOf_def toString16_def hexDigits.simps str_defs)
  ultimately show ?thesis by blast
qed

section \<open>The dispatcher\<close>

text \<open>
  C7. A record that has the keys r, g and b is decoded as structured RGBA, whether or
  not it also has the keys h, s and l; a record that has neither all of r, g, b nor all
  of h, s, l fails with \<open>UnsupportedFormat\<close>.
\<close>

theorem dispatcher_rgb_before_hsl:
  "(input ''r'' \<noteq> None \<and> input ''g'' \<noteq> None \<and> input ''b'' \<noteq> None \<longrightarrow>
      new_ColorValue canvas (Obj input) =
        Inr (setRGBA (field input ''r'') (field input ''g'') (field input ''b'')
               (normalizeAlpha (field input ''a''))))
   \<and> ((input ''r'' = None \<or> input ''g'' = None \<or> input ''b'' = None) \<and>
       (input ''h'' = None \<or> input ''s'' = None \<or> input ''l'' = None) \<longrightarrow>
      new_ColorValue canvas (Obj input) = Inl UnsupportedFormat)"
  by (auto simp: Let_def)

theorem dispatcher_rgb_before_hsl_witness:
  "new_ColorValue (\<lambda>n. [])
     (Obj [''r'' \<mapsto> Num (Fin 255), ''g'' \<mapsto> Num (Fin 0), ''b'' \<mapsto> Num (Fin 0),
           ''h'' \<mapsto> Num (Fin 120), ''s'' \<mapsto> Num (Fin 100), ''l'' \<mapsto> Num (Fin 50)]) =
     Inr \<lparr>this_r = Fin 1, this_g = Fin 0, this_b = Fin 0, this_a = Fin (1 / 255)\<rparr>
   \<and> new_ColorValue (\<lambda>n. []) (Obj [''x'' \<mapsto> Num (Fin 1)]) = Inl UnsupportedFormat"
  using dispatcher_rgb_before_hsl [of "[''r'' \<mapsto> Num (Fin 255), ''g'' \<mapsto> Num (Fin 0), ''b'' \<mapsto> Num (Fin 0),
           ''h'' \<mapsto> Num (Fin 120), ''s'' \<mapsto> Num (Fin 100), ''l'' \<mapsto> Num (Fin 50)]" "\<lambda>n. []"]
    dispatcher_rgb_before_hsl [of "[''x'' \<mapsto> Num (Fin 1)]" "\<lambda>n. []"]
  by (simp add: num_defs dec_defs)

section \<open>The CSS-RGB decoder\<close>

text \<open>
  C10. For a string whose trimmed, lower-case form starts with \<open>rgb\<close>, the construction
  fails with \<open>InvalidCSSRGB\<close> exactly when the regular expression does not match, and it
  fails with no other error; when the expression matches, an instance is constructed
  whatever the arguments are. The string \<open>rgb(10, 20)\<close> constructs an instance whose
  blue channel is \<open>NaN\<close>.
\<close>

theorem cssrgb_fails_iff_no_match:
  "(startsWith (toLowerCase (trim s)) ''rgb'' \<longrightarrow>
      (new_ColorValue canvas (Prim (Str s)) = Inl InvalidCSSRGB \<longleftrightarrow>
         regexMatch ''rgb'' (toLowerCase (trim s)) = None)
      \<and> (\<forall>e. new_ColorValue canvas (Prim (Str s)) = Inl e \<longrightarrow>
            e = InvalidCSSRGB \<and> regexMatch ''rgb'' (toLowerCase (trim s)) = None))
   \<and> new_ColorValue canvas (Prim (Str ''rgb(10, 20)'')) =
       Inr \<lparr>this_r = Fin (10 / 255), this_g = Fin (20 / 255), this_b = NaN, this_a = Fin 1\<rparr>"
proof -
  have concrete: "new_ColorValue canvas (Prim (Str ''rgb(10, 20)'')) =
       Inr \<lparr>this_r = Fin (10 / 255), this_g = Fin (20 / 255), this_b = NaN, this_a = Fin 1\<rparr>"
    by (simp add: num_defs str_defs parse_defs dec_defs Let_def)
  have general: "(new_ColorValue canvas (Prim (Str s)) = Inl InvalidCSSRGB \<longleftrightarrow>
         regexMatch ''rgb'' (toLowerCase (trim s)) = None)
      \<and> (\<forall>e. new_ColorValue canvas (Prim (Str s)) = Inl e \<longrightarrow>
            e = InvalidCSSRGB \<and> regexMatch ''rgb'' (toLowerCase (trim s)) = None)"
    if h: "startsWith (toLowerCase (trim s)) ''rgb''"
  proof -
    from h have nohash: "\<not> startsWith (toLowerCase (trim s)) ''#''"
      by (cases "toLowerCase (trim s)") (auto simp: startsWith_def)
    have eq: "new_ColorValue canvas (Prim (Str s)) = setCSSRGB (toLowerCase (trim s))"
      using h nohash by (simp add: Let_def)
    show ?thesis
      unfolding eq by (auto simp: setCSSRGB_def Let_def split: option.splits)
  qed
  from concrete general show ?thesis by blast
qed

theorem cssrgb_fails_iff_no_match_witness:
  "new_ColorValue (\<lambda>n. []) (Prim (Str ''rgb'')) = Inl InvalidCSSRGB
   \<and> new_ColorValue (\<lambda>n. []) (Prim (Str ''RGB(10, 20)'')) \<noteq> Inl InvalidCSSRGB"
proof -
  have low: "toLowerCase (trim ''RGB(10, 20)'') = ''rgb(10, 20)''"
    by code_simp
  have a: "startsWith (toLowerCase (trim ''rgb'')) ''rgb''"
    by (simp add: str_defs)
  have b: "regexMatch ''rgb'' (toLowerCase (trim ''rgb'')) = None"
    by (simp add: str_defs captureArgs_def matchAt_def)
  have c: "startsWith (toLowerCase (trim ''RGB(10, 20)'')) ''rgb''"
    unfolding low by (simp add: startsWith_def)
  have d: "regexMatch ''rgb'' (toLowerCase (trim ''RGB(10, 20)'')) \<noteq> None"
    unfolding low by (simp add: startsWith_def captureArgs_def matchAt_def)
  from cssrgb_fails_iff_no_match [of "''rgb''" "\<lambda>n. []"] a b
  have "new_ColorValue (\<lambda>n. []) (Prim (Str ''rgb'')) = Inl InvalidCSSRGB" by blast
  moreover from cssrgb_fails_iff_no_match [of "''RGB(10, 20)''" "\<lambda>n. []"] c d
  have "new_ColorValue (\<lambda>n. []) (Prim (Str ''RGB(10, 20)'')) \<noteq> Inl InvalidCSSRGB" by blast
  ultimately show ?thesis by blast
qed

section \<open>The Hex decoder\<close>

lemma clamp01_unit: "0 \<le> y \<Longrightarrow> y \<le> 1 \<Longrightarrow> clamp01 (Fin y) = Fin y"
  by (simp add: clamp01_def Math_max_def Math_min_def)

lemma digitVal_Some:
  assumes "digitVal c = Some v"
  shows "v < 16" and "\<not> isWhite c" and "c \<noteq> CHR ''-''" and "c \<noteq> CHR ''+''"
    and "c \<noteq> CHR ''x''" and "c \<noteq> CHR ''X''" and "c \<noteq> CHR ''#''"
  using assms by (auto simp: digitVal_def isWhite_def split: if_splits)

lemma isRadixDigit16: "isRadixDigit 16 c \<longleftrightarrow> (\<exists>v. digitVal c = Some v)"
  by (auto simp: isRadixDigit_def digitVal_Some(1) split: option.splits)

lemma parseInt16_pair:
  assumes c: "digitVal c = Some u" and d: "digitVal d = Some v"
  shows "parseInt16 [c, d] = Fin (real (16 * u + v))"
  using digitVal_Some [OF c] digitVal_Some [OF d] c d
  by (simp add: parseInt16_def trimStart_def startsWith_def isRadixDigit_def Let_def)

lemma hexPair_Some: "digitVal c = Some u \<Longrightarrow> digitVal d = Some v \<Longrightarrow> hexPair c d = 16 * u + v"
  by (simp add: hexPair_def)

lemma hexPair_le: "hexPair c d \<le> 255"
  by (auto simp: hexPair_def split: option.splits dest!: digitVal_Some(1))

lemma setRGBA_bytes:
  assumes "x \<le> 255" "y \<le> 255" "z \<le> 255"
  shows "setRGBA (Num (Fin (real x))) (Num (Fin (real y))) (Num (Fin (real z))) (Fin 255) =
    \<lparr>this_r = Fin (real x / 255), this_g = Fin (real y / 255), this_b = Fin (real z / 255), this_a = Fin 1\<rparr>"
  using assms by (simp add: setRGBA_def setRGBAf_def clamp01_unit)




lemma setHex_clean6:
  assumes "removeFirst (CHR ''#'') hex = [c1, c2, c3, c4, c5, c6]"
    and "isRadixDigit 16 c1" "isRadixDigit 16 c2" "isRadixDigit 16 c3"
    and "isRadixDigit 16 c4" "isRadixDigit 16 c5" "isRadixDigit 16 c6"
  shows "setHex hex = Inr \<lparr>this_r = Fin (real (hexPair c1 c2) / 255),
      this_g = Fin (real (hexPair c3 c4) / 255), this_b = Fin (real (hexPair c5 c6) / 255), this_a = Fin 1\<rparr>"
proof -
  from assms(2-7) obtain v1 v2 v3 v4 v5 v6 where
    v: "digitVal c1 = Some v1" "digitVal c2 = Some v2" "digitVal c3 = Some v3"
       "digitVal c4 = Some v4" "digitVal c5 = Some v5" "digitVal c6 = Some v6"
    by (auto simp: isRadixDigit16)
  have p: "parseInt16 [c1, c2] = Fin (real (hexPair c1 c2))"
    "parseInt16 [c3, c4] = Fin (real (hexPair c3 c4))"
    "parseInt16 [c5, c6] = Fin (real (hexPair c5 c6))"
    using v by (simp_all only: parseInt16_pair hexPair_Some)
  show ?thesis
    by (simp add: setHex_def assms(1) p setRGBA_bytes hexPair_le)
qed







section \<open>The Hex round trip\<close>

lemma byteOf_byte: "byteOf (Fin (real n / 255)) = Fin (real n)"
proof -
  have "\<lfloor>real n + 1 / 2\<rfloor> = int n" by linarith
  then show ?thesis by (simp add: byteOf_def)
qed

lemma digitVal_digitChar: "d < 16 \<Longrightarrow> digitVal (digitChar d) = Some d"
proof -
  assume "d < 16"
  then have "d = 0 \<or> d = 1 \<or> d = 2 \<or> d = 3 \<or> d = 4 \<or> d = 5 \<or> d = 6 \<or> d = 7 \<or> d = 8 \<or> d = 9
    \<or> d = 10 \<or> d = 11 \<or> d = 12 \<or> d = 13 \<or> d = 14 \<or> d = 15" by arith
  then show ?thesis by (elim disjE) (simp_all add: digitChar_def digitVal_def)
qed

lemma lowerChar_digitChar: "d < 16 \<Longrightarrow> lowerChar (digitChar d) = digitChar d"
proof -
  assume "d < 16"
  then have "d = 0 \<or> d = 1 \<or> d = 2 \<or> d = 3 \<or> d = 4 \<or> d = 5 \<or> d = 6 \<or> d = 7 \<or> d = 8 \<or> d = 9
    \<or> d = 10 \<or> d = 11 \<or> d = 12 \<or> d = 13 \<or> d = 14 \<or> d = 15" by arith
  then show ?thesis by (elim disjE) (simp_all add: digitChar_def lowerChar_def)
qed

lemma hex2:
  assumes "n < 256"
  shows "padStart 2 (CHR ''0'') (toString16 (Fin (real n))) = [digitChar (n div 16), digitChar (n mod 16)]"
proof (cases "n < 16")
  case True
  then show ?thesis
    by (simp add: toString16_def hexDigits.simps [of n] padStart_def) (simp add: digitChar_def)
next
  case False
  with assms have "n div 16 < 16" by simp
  with False show ?thesis
    by (simp add: toString16_def hexDigits.simps [of n] hexDigits.simps [of "n div 16"] padStart_def)
qed

lemma Hex_bytes:
  assumes "r < 256" "g < 256" "b < 256"
  shows "Hex \<lparr>this_r = Fin (real r / 255), this_g = Fin (real g / 255), this_b = Fin (real b / 255), this_a = al\<rparr> =
    [CHR ''#'', digitChar (r div 16), digitChar (r mod 16), digitChar (g div 16), digitChar (g mod 16),
     digitChar (b div 16), digitChar (b mod 16)]"
  using assms by (simp add: Hex_def byteOf_byte hex2)

lemma hexPair_digitChar: "u < 16 \<Longrightarrow> v < 16 \<Longrightarrow> hexPair (digitChar u) (digitChar v) = 16 * u + v"
  by (simp add: hexPair_Some digitVal_digitChar)

lemma isRadixDigit_digitChar: "d < 16 \<Longrightarrow> isRadixDigit 16 (digitChar d)"
  by (simp add: isRadixDigit16 digitVal_digitChar)

lemma not_white_digitChar: "d < 16 \<Longrightarrow> \<not> isWhite (digitChar d)"
  using digitVal_Some(2) digitVal_digitChar by blast


lemma dropWhile_hd_id: "xs \<noteq> [] \<Longrightarrow> \<not> P (hd xs) \<Longrightarrow> dropWhile P xs = xs"
  by (cases xs) simp_all

lemma trim_id:
  assumes "xs \<noteq> []" "\<not> isWhite (hd xs)" "\<not> isWhite (last xs)"
  shows "trim xs = xs"
proof -
  have "dropWhile isWhite xs = xs" using assms(1,2) by (rule dropWhile_hd_id)
  moreover have "dropWhile isWhite (rev xs) = rev xs"
    using assms(1,3) by (intro dropWhile_hd_id) (simp_all add: hd_rev)
  ultimately show ?thesis by (simp add: trim_def)
qed

text \<open>
  C9. Hex round trip: for bytes \<open>r\<close>, \<open>g\<close>, \<open>b\<close> and any alpha, the \<open>Hex\<close> string of the
  colour with the channels \<open>r/255\<close>, \<open>g/255\<close>, \<open>b/255\<close> constructs an instance with the same
  three channels and the alpha 1, and that instance encodes back to the bytes
  \<open>r\<close>, \<open>g\<close>, \<open>b\<close> and the alpha byte 255.
\<close>

theorem hex_round_trip:
  "r < 256 \<and> g < 256 \<and> b < 256 \<longrightarrow>
     new_ColorValue canvas (Prim (Str (Hex \<lparr>this_r = Fin (real r / 255), this_g = Fin (real g / 255),
        this_b = Fin (real b / 255), this_a = al\<rparr>))) =
       Inr \<lparr>this_r = Fin (real r / 255), this_g = Fin (real g / 255), this_b = Fin (real b / 255),
            this_a = Fin 1\<rparr>
     \<and> RGBA \<lparr>this_r = Fin (real r / 255), this_g = Fin (real g / 255), this_b = Fin (real b / 255),
            this_a = Fin 1\<rparr> = (Fin (real r), Fin (real g), Fin (real b), Fin 255)"
proof (intro impI, elim conjE)
  assume lt: "r < 256" "g < 256" "b < 256"
  define s where "s = [CHR ''#'', digitChar (r div 16), digitChar (r mod 16), digitChar (g div 16),
     digitChar (g mod 16), digitChar (b div 16), digitChar (b mod 16)]"
  have d: "r div 16 < 16" "r mod 16 < 16" "g div 16 < 16" "g mod 16 < 16" "b div 16 < 16" "b mod 16 < 16"
    using lt by simp_all
  have hexs: "Hex \<lparr>this_r = Fin (real r / 255), this_g = Fin (real g / 255),
        this_b = Fin (real b / 255), this_a = al\<rparr> = s"
    unfolding s_def by (rule Hex_bytes [OF lt])
  have tr: "trim s = s"
  proof (rule trim_id)
    show "s \<noteq> []" by (simp add: s_def)
    show "\<not> isWhite (hd s)" by (simp add: s_def isWhite_def)
    show "\<not> isWhite (last s)" using d by (simp add: s_def not_white_digitChar)
  qed
  have "lowerChar (CHR ''#'') = CHR ''#''" by (simp add: lowerChar_def)
  then have lo: "toLowerCase s = s"
    using d by (simp add: s_def toLowerCase_def lowerChar_digitChar)
  have disp: "new_ColorValue canvas (Prim (Str s)) = setHex s"
    by (simp add: tr lo) (simp add: s_def startsWith_def)
  have clean: "removeFirst (CHR ''#'') s =
     [digitChar (r div 16), digitChar (r mod 16), digitChar (g div 16),
     digitChar (g mod 16), digitChar (b div 16), digitChar (b mod 16)]"
    by (simp add: s_def)
  have "setHex s = Inr \<lparr>this_r = Fin (real r / 255), this_g = Fin (real g / 255), this_b = Fin (real b / 255),
            this_a = Fin 1\<rparr>"
    using setHex_clean6 [OF clean] d by (simp add: isRadixDigit_digitChar hexPair_digitChar)
  moreover have "RGBA \<lparr>this_r = Fin (real r / 255), this_g = Fin (real g / 255), this_b = Fin (real b / 255),
            this_a = Fin 1\<rparr> = (Fin (real r), Fin (real g), Fin (real b), Fin 255)"
    by (simp add: RGBA_def byteOf_byte) (simp add: byteOf_def)
  ultimately show "new_ColorValue canvas (Prim (Str (Hex \<lparr>this_r = Fin (real r / 255), this_g = Fin (real g / 255),
        this_b = Fin (real b / 255), this_a = al\<rparr>))) =
       Inr \<lparr>this_r = Fin (real r / 255), this_g = Fin (real g / 255), this_b = Fin (real b / 255),
            this_a = Fin 1\<rparr>
     \<and> RGBA \<lparr>this_r = Fin (real r / 255), this_g = Fin (real g / 255), this_b = Fin (real b / 255),
            this_a = Fin 1\<rparr> = (Fin (real r), Fin (real g), Fin (real b), Fin 255)"
    unfolding hexs disp by blast
qed

theorem hex_round_trip_witness:
  "new_ColorValue (\<lambda>n. []) (Prim (Str (Hex \<lparr>this_r = Fin (real 255 / 255), this_g = Fin (real 128 / 255),
        this_b = Fin (real 7 / 255), this_a = Fin (1 / 2)\<rparr>))) =
       Inr \<lparr>this_r = Fin (real 255 / 255), this_g = Fin (real 128 / 255), this_b = Fin (real 7 / 255),
            this_a = Fin 1\<rparr>
     \<and> RGBA \<lparr>this_r = Fin (real 255 / 255), this_g = Fin (real 128 / 255), this_b = Fin (real 7 / 255),
            this_a = Fin 1\<rparr> = (Fin (real 255), Fin (real 128), Fin (real 7), Fin 255)"
  using hex_round_trip [of 255 128 7 "\<lambda>n. []" "Fin (1 / 2)"] by simp

section \<open>The RGB-HSL round trip\<close>










































section \<open>What every construction guarantees\<close>

lemma clamp01_unitOrNaN: "unitOrNaN (clamp01 v)"
  by (cases v) (simp_all add: clamp01_def Math_max_def Math_min_def unitOrNaN_def inUnit_def)

lemma setRGBAf_ok: "channelsOk (setRGBAf r g b a)"
  by (simp add: channelsOk_def setRGBAf_def clamp01_unitOrNaN)

lemma setRGBA_ok: "channelsOk (setRGBA r g b a)"
  by (simp add: setRGBA_def setRGBAf_ok)

lemma setHSL_ok: "channelsOk (setHSL h s l a)"
  by (simp add: setHSL_def setRGBAf_ok split: prod.splits)

lemma setHex_ok: "setHex hex = Inr c \<Longrightarrow> channelsOk c"
  by (auto simp: setHex_def Let_def setRGBA_ok split: if_splits)

lemma setCSSRGB_ok: "setCSSRGB str = Inr c \<Longrightarrow> channelsOk c"
  by (auto simp: setCSSRGB_def Let_def setRGBAf_ok split: option.splits)

lemma setCSSHSL_ok: "setCSSHSL str = Inr c \<Longrightarrow> channelsOk c"
  by (auto simp: setCSSHSL_def Let_def setHSL_ok split: option.splits)

lemma setNamed_ok: "setNamed canvas name = Inr c \<Longrightarrow> channelsOk c"
  by (auto simp: setNamed_def Let_def setHex_ok split: if_splits)

lemma setFrom_ok:
  assumes "setFrom canvas input = Inr c"
  shows "channelsOk c"
proof (cases input)
  case (Prim p)
  with assms show ?thesis
    by (cases p)
      (auto simp: Let_def setHex_ok setCSSRGB_ok setCSSHSL_ok setNamed_ok setInteger_def setRGBAf_ok
        split: if_splits)
next
  case (Arr xs)
  with assms show ?thesis by (auto simp: setFloatVector_def setRGBAf_ok split: if_splits)
next
  case (Obj m)
  with assms show ?thesis by (auto simp: Let_def setRGBA_ok setHSL_ok split: if_splits)
qed

lemma new_ColorValue_setFrom:
  "new_ColorValue canvas input = setFrom canvas input \<or>
   new_ColorValue canvas input = setFrom canvas defaultInput"
proof (cases input)
  case (Prim p)
  then show ?thesis by (cases p) (simp_all only: new_ColorValue.simps simp_thms)
next
  case (Arr xs)
  then show ?thesis by (simp only: new_ColorValue.simps simp_thms)
next
  case (Obj m)
  then show ?thesis by (simp only: new_ColorValue.simps simp_thms)
qed

text \<open>
  X1. Whatever the input and whatever the browser resolves names to, every channel of a
  constructed instance is in the unit interval or is \<open>NaN\<close>: all decoders store through
  \<open>setRGBAf\<close>, which clamps, and the only value the clamp lets through is \<open>NaN\<close>.
\<close>

theorem constructed_channels_unit_or_NaN:
  "new_ColorValue canvas input = Inr c \<longrightarrow>
     unitOrNaN (this_r c) \<and> unitOrNaN (this_g c) \<and> unitOrNaN (this_b c) \<and> unitOrNaN (this_a c)"
proof
  assume a: "new_ColorValue canvas input = Inr c"
  with new_ColorValue_setFrom [of canvas input]
  have "setFrom canvas input = Inr c \<or> setFrom canvas defaultInput = Inr c" by metis
  then have "channelsOk c" using setFrom_ok by blast
  then show "unitOrNaN (this_r c) \<and> unitOrNaN (this_g c) \<and> unitOrNaN (this_b c) \<and> unitOrNaN (this_a c)"
    by (simp add: channelsOk_def)
qed

theorem constructed_channels_unit_or_NaN_witness:
  "new_ColorValue (\<lambda>n. []) (Prim (Str ''#ggg'')) =
      Inr \<lparr>this_r = NaN, this_g = NaN, this_b = NaN, this_a = Fin 1\<rparr>
   \<and> unitOrNaN NaN \<and> unitOrNaN (Fin 1)"
proof -
  have e: "new_ColorValue (\<lambda>n. []) (Prim (Str ''#ggg'')) =
      Inr \<lparr>this_r = NaN, this_g = NaN, this_b = NaN, this_a = Fin 1\<rparr>"
    by (simp add: num_defs str_defs parse_defs dec_defs Let_def)
  from constructed_channels_unit_or_NaN [of "\<lambda>n. []" "Prim (Str ''#ggg'')"
      "\<lparr>this_r = NaN, this_g = NaN, this_b = NaN, this_a = Fin 1\<rparr>"] e
  show ?thesis by simp
qed

lemma normalizeAlpha_unit: "\<exists>n. normalizeAlpha v = Fin n \<and> 0 \<le> n \<and> n \<le> 1"
proof -
  have "\<exists>n. clamp01 w = Fin n \<and> 0 \<le> n \<and> n \<le> 1" if "w \<noteq> NaN" for w
    using that by (cases w) (simp_all add: clamp01_def Math_max_def Math_min_def)
  then show ?thesis
    by (auto simp: normalizeAlpha_def Let_def isNaN_def)
qed

text \<open>
  X2. For every record with the keys r, g and b the construction succeeds and the stored
  alpha is between 0 and 1/255, whatever the record's alpha is: such a record never
  constructs an opaque colour.
\<close>

theorem structured_rgba_alpha_at_most_one_255th:
  "input ''r'' \<noteq> None \<and> input ''g'' \<noteq> None \<and> input ''b'' \<noteq> None \<longrightarrow>
     (\<exists>c al. new_ColorValue canvas (Obj input) = Inr c \<and> this_a c = Fin al \<and> 0 \<le> al \<and> al \<le> 1 / 255)"
proof
  assume k: "input ''r'' \<noteq> None \<and> input ''g'' \<noteq> None \<and> input ''b'' \<noteq> None"
  obtain n where n: "normalizeAlpha (field input ''a'') = Fin n" "0 \<le> n" "n \<le> 1"
    using normalizeAlpha_unit by blast
  have "clamp01 (jdiv (Fin n) (Fin 255)) = Fin (n / 255)"
    using n(2,3) by (simp add: clamp01_def Math_max_def Math_min_def)
  then have "this_a (setRGBA (field input ''r'') (field input ''g'') (field input ''b'') (Fin n)) = Fin (n / 255)"
    by (simp add: setRGBA_def setRGBAf_def)
  moreover have "new_ColorValue canvas (Obj input) =
      Inr (setRGBA (field input ''r'') (field input ''g'') (field input ''b'') (Fin n))"
    using k by (simp add: Let_def n(1))
  ultimately show "\<exists>c al. new_ColorValue canvas (Obj input) = Inr c \<and> this_a c = Fin al \<and> 0 \<le> al \<and> al \<le> 1 / 255"
    using n(2,3) by (intro exI [of _ "setRGBA (field input ''r'') (field input ''g'') (field input ''b'') (Fin n)"] exI [of _ "n / 255"]) simp
qed

theorem structured_rgba_alpha_at_most_one_255th_witness:
  "\<exists>c al. new_ColorValue (\<lambda>n. [])
       (Obj [''r'' \<mapsto> Num (Fin 255), ''g'' \<mapsto> Num (Fin 0), ''b'' \<mapsto> Num (Fin 0), ''a'' \<mapsto> Num (Fin 255)]) = Inr c
     \<and> this_a c = Fin al \<and> 0 \<le> al \<and> al \<le> 1 / 255"
  using structured_rgba_alpha_at_most_one_255th
    [of "[''r'' \<mapsto> Num (Fin 255), ''g'' \<mapsto> Num (Fin 0), ''b'' \<mapsto> Num (Fin 0), ''a'' \<mapsto> Num (Fin 255)]" "\<lambda>n. []"]
  by simp

end
